theory Spec2Isabelle
  imports Complex_Main "HOL-Library.AList"
begin

section \<open>Session state of the cell management application\<close>

text \<open>
  The application keeps three collections in its session state: \<open>cells_data\<close>, a
  dictionary from cell id to a dictionary of attributes; \<open>task_queue\<close>, a list of task
  dictionaries; and \<open>system_logs\<close>, a list of log entries. Python dictionaries keep their
  keys in insertion order, so \<open>cells_data\<close> is an association list here: storing under a
  key that is present replaces the value in place, storing under a new key appends.

  Numbers are Python floats and ints in the source; they are real numbers here. A cell
  attribute may be missing from its dictionary (the source reads telemetry with
  \<open>cell_data.get(key, 0)\<close>), so each field is optional.

  The program is a page script: each operation is the block of code under a button.
  Every such block is a function here, from the values of its form, the clock and the
  session state to the new session state and the message shown.
\<close>

record cell =
  voltage :: "real option"
  current :: "real option"
  temp :: "real option"
  capacity :: "real option"
  min_voltage :: "real option"
  max_voltage :: "real option"
  soc :: "real option"
  cycle_count :: "real option"
  cell_type :: "string option"

text \<open>\<open>d.get(key, 0)\<close> on an attribute of a cell.\<close>

definition get_or_0 :: "real option \<Rightarrow> real" where
  "get_or_0 x = (case x of None \<Rightarrow> 0 | Some v \<Rightarrow> v)"

record task =
  task_id :: string
  task_type :: string
  cells :: "string list"
  priority :: string
  status :: string
  created :: string
  description :: string
  params :: "(string \<times> real) list"

record log_entry =
  timestamp :: string
  event_type :: string
  message :: string

record session_state =
  cells_data :: "(string \<times> cell) list"
  task_queue :: "task list"
  system_logs :: "log_entry list"

text \<open>
  What a handler shows to the user: \<open>st.success\<close>, \<open>st.error\<close>, \<open>st.info\<close>, or nothing.
\<close>

datatype feedback = Success string | Error string | Info string | Silent

text \<open>
  \<open>log_event\<close> appends one entry. The clock (\<open>datetime.now()\<close>, already formatted) is
  an argument.
\<close>

definition log_event :: "string \<Rightarrow> string \<Rightarrow> string \<Rightarrow> session_state \<Rightarrow> session_state" where
  "log_event now ty msg s =
     s\<lparr>system_logs := system_logs s @
          [\<lparr>timestamp = now, event_type = ty, message = msg\<rparr>]\<rparr>"

section \<open>Status classification\<close>


section \<open>Health scoring\<close>

text \<open>The body of the scoring loop of the Health Monitoring tab, for one cell.\<close>

record health =
  overall :: real
  voltage_score :: real
  temp_score :: real
  cycle_score :: real
  soc_score :: real

definition health_score :: "cell \<Rightarrow> health" where
  "health_score cell_data =
     (let v = get_or_0 (voltage cell_data);
          t = get_or_0 (temp cell_data);
          n = get_or_0 (cycle_count cell_data);
          c = get_or_0 (soc cell_data);
          vs = (if 3.0 \<le> v \<and> v \<le> 4.0 then 100 else max 0 (100 - \<bar>v - 3.5\<bar> * 50));
          ts = (if t \<le> 35 then 100 else max 0 (100 - (t - 35) * 5));
          cs = max 0 (100 - (n / 1000) * 100);
          ss = (if 20 \<le> c \<and> c \<le> 80 then 100 else max 0 (100 - \<bar>c - 50\<bar> * 2))
      in \<lparr>overall = (vs + ts + cs + ss) / 4,
          voltage_score = vs, temp_score = ts, cycle_score = cs, soc_score = ss\<rparr>)"

section \<open>Setup page: adding cells\<close>

text \<open>The values of the Add Cell form when the button is pressed.\<close>

record cell_form =
  form_cell_type :: string
  form_cell_id :: string
  form_voltage :: real
  form_current :: real
  form_temp :: real
  form_capacity :: real
  form_soc :: real
  form_cycle_count :: real

text \<open>
  The Add Cell handler. The voltage bounds are not entered: they follow from the cell
  type. \<open>cells_data[cell_id] = new_cell\<close> replaces an entry that is already there.
\<close>

definition add_cell :: "string \<Rightarrow> cell_form \<Rightarrow> session_state \<Rightarrow> session_state \<times> feedback" where
  "add_cell now f s =
     (if form_cell_id f \<noteq> [] then
        let lo = (if form_cell_type f = ''lfp'' then 2.8 else 3.2);
            hi = (if form_cell_type f = ''lfp'' then 3.6 else 4.0);
            new_cell = \<lparr>voltage = Some (form_voltage f),
                        current = Some (form_current f),
                        temp = Some (form_temp f),
                        capacity = Some (form_capacity f),
                        min_voltage = Some lo,
                        max_voltage = Some hi,
                        soc = Some (form_soc f),
                        cycle_count = Some (form_cycle_count f),
                        cell_type = Some (form_cell_type f)\<rparr>
        in (log_event now ''INFO'' (''Cell '' @ form_cell_id f @ '' added successfully'')
              (s\<lparr>cells_data := AList.update (form_cell_id f) new_cell (cells_data s)\<rparr>),
            Success (''Cell '' @ form_cell_id f @ '' added successfully!''))
      else (s, Error ''Please enter a valid Cell ID''))"

section \<open>Control panel: batch operations and emergency controls\<close>

text \<open>
  Each branch of the batch handler walks over all cells, overwrites one field of each,
  logs once and shows a fixed message. The operation is the text chosen in the select box.
\<close>

definition for_all_cells :: "(string \<Rightarrow> cell \<Rightarrow> cell) \<Rightarrow> session_state \<Rightarrow> session_state" where
  "for_all_cells body s =
     s\<lparr>cells_data := map (\<lambda>(cell_id, cell_data). (cell_id, body cell_id cell_data)) (cells_data s)\<rparr>"

definition execute_batch_operation :: "string \<Rightarrow> string \<Rightarrow> session_state \<Rightarrow> session_state \<times> feedback" where
  "execute_batch_operation now operation s =
     (if operation = ''Balance All Cells'' then
        (log_event now ''INFO'' ''Batch balancing operation started''
           (for_all_cells (\<lambda>cell_id cell_data. cell_data\<lparr>current := Some 1.0\<rparr>) s),
         Success ''All cells set to balancing mode!'')
      else if operation = ''Emergency Stop All'' then
        (log_event now ''WARNING'' ''Emergency stop - all cells stopped''
           (for_all_cells (\<lambda>cell_id cell_data. cell_data\<lparr>current := Some 0.0\<rparr>) s),
         Success ''Emergency stop executed!'')
      else if operation = ''Reset All Temperatures'' then
        (log_event now ''INFO''
           (''All cell temperatures reset to 25'' @ [CHR 0xC2, CHR 0xB0] @ ''C'')
           (for_all_cells (\<lambda>cell_id cell_data. cell_data\<lparr>temp := Some 25.0\<rparr>) s),
         Success ''All temperatures reset!'')
      else if operation = ''Set All Currents to Zero'' then
        (log_event now ''INFO'' ''All cell currents set to zero''
           (for_all_cells (\<lambda>cell_id cell_data. cell_data\<lparr>current := Some 0.0\<rparr>) s),
         Success ''All currents set to zero!'')
      else (s, Silent))"

definition emergency_shutdown :: "string \<Rightarrow> session_state \<Rightarrow> session_state \<times> feedback" where
  "emergency_shutdown now s =
     (log_event now ''CRITICAL'' ''EMERGENCY SHUTDOWN ACTIVATED''
        (for_all_cells (\<lambda>cell_id cell_data. cell_data\<lparr>current := Some 0.0, voltage := Some 0.0\<rparr>) s),
      Error ''Emergency shutdown activated!'')"

text \<open>Python's \<open>sub in s\<close> on strings.\<close>

fun contains :: "string \<Rightarrow> string \<Rightarrow> bool" where
  "contains sub [] = (sub = [])"
| "contains sub (c # cs) = (take (length sub) (c # cs) = sub \<or> contains sub cs)"

definition system_restart :: "string \<Rightarrow> session_state \<Rightarrow> session_state \<times> feedback" where
  "system_restart now s =
     (log_event now ''INFO'' ''System restart completed''
        (for_all_cells (\<lambda>cell_id cell_data.
           if contains ''lfp'' cell_id
           then cell_data\<lparr>voltage := Some 3.2, current := Some 0.0, temp := Some 25.0\<rparr>
           else cell_data\<lparr>voltage := Some 3.6, current := Some 0.0, temp := Some 25.0\<rparr>) s),
      Success ''System restarted successfully!'')"

section \<open>Task manager\<close>

text \<open>Decimal rendering of a number, as an f-string does it.\<close>

definition digit_char :: "nat \<Rightarrow> char" where
  "digit_char d = ''0123456789'' ! d"

function str_nat :: "nat \<Rightarrow> string" where
  "str_nat n = (if n < 10 then [digit_char n] else str_nat (n div 10) @ [digit_char (n mod 10)])"
  by pat_completeness auto
termination
  by (relation "measure id") auto

declare str_nat.simps [simp del]

text \<open>\<open>', '.join(xs)\<close>.\<close>

fun join_comma :: "string list \<Rightarrow> string" where
  "join_comma [] = []"
| "join_comma [x] = x"
| "join_comma (x # y # ys) = x @ '', '' @ join_comma (y # ys)"

text \<open>The values of the Create Task form when the button is pressed.\<close>

record task_form =
  form_task_type :: string
  form_target_cells :: "string list"
  form_priority :: string
  form_description :: string
  form_target_voltage :: real
  form_target_current :: real
  form_max_capacity :: real
  form_max_temp :: real
  form_duration :: real
  form_cutoff_voltage :: real
  form_balance_threshold :: real
  form_max_balance_current :: real

definition task_parameters :: "task_form \<Rightarrow> (string \<times> real) list" where
  "task_parameters f =
     (if form_task_type f \<in> {''CC_CV (Charge)'', ''CC_CD (Discharge)''} then
        [(''target_voltage'', form_target_voltage f),
         (''current'', form_target_current f),
         (''max_capacity'', form_max_capacity f),
         (''max_temp'', form_max_temp f),
         (''duration'', form_duration f),
         (''cutoff_voltage'', form_cutoff_voltage f)]
      else if form_task_type f = ''IDLE'' then
        [(''duration'', form_duration f)]
      else if form_task_type f = ''BALANCE'' then
        [(''balance_threshold'', form_balance_threshold f),
         (''max_balance_current'', form_max_balance_current f)]
      else [])"

text \<open>
  The Create Task handler. The id is made from the present length of the queue. The
  source stores the type-specific parameters in the task dictionary itself; their keys
  differ from the keys of the common fields, so they are kept apart in \<open>params\<close>.
\<close>

definition create_task :: "string \<Rightarrow> task_form \<Rightarrow> session_state \<Rightarrow> session_state \<times> feedback" where
  "create_task now f s =
     (if form_target_cells f \<noteq> [] then
        let t = \<lparr>task_id = ''task_'' @ str_nat (length (task_queue s) + 1),
                 task_type = form_task_type f,
                 cells = form_target_cells f,
                 priority = form_priority f,
                 status = ''Queued'',
                 created = now,
                 description = form_description f,
                 params = task_parameters f\<rparr>
        in (log_event now ''INFO''
              (''Task '' @ task_id t @ '' created for cells: '' @ join_comma (form_target_cells f))
              (s\<lparr>task_queue := task_queue s @ [t]\<rparr>),
            Success (''Task '' @ task_id t @ '' created successfully!''))
      else (s, Error ''Please select at least one target cell.''))"

text \<open>Start Next Task: the task at the head of the queue is set to Running.\<close>

definition start_next_task :: "string \<Rightarrow> session_state \<Rightarrow> session_state \<times> feedback" where
  "start_next_task now s =
     (case task_queue s of
        [] \<Rightarrow> (s, Silent)
      | next_task # rest \<Rightarrow>
          (log_event now ''INFO'' (''Task '' @ task_id next_task @ '' started'')
             (s\<lparr>task_queue := next_task\<lparr>status := ''Running''\<rparr> # rest\<rparr>),
           Success (''Started task: '' @ task_id next_task)))"

definition pause_all_tasks :: "string \<Rightarrow> session_state \<Rightarrow> session_state \<times> feedback" where
  "pause_all_tasks now s =
     (log_event now ''WARNING'' ''All running tasks paused''
        (s\<lparr>task_queue :=
             map (\<lambda>t. if status t = ''Running'' then t\<lparr>status := ''Paused''\<rparr> else t) (task_queue s)\<rparr>),
      Info ''All running tasks have been paused.'')"





definition cancel_task :: "string \<Rightarrow> string \<Rightarrow> session_state \<Rightarrow> session_state" where
  "cancel_task now selected_task_id s =
     (case find (\<lambda>t. task_id t = selected_task_id) (task_queue s) of
        None \<Rightarrow> s
      | Some selected_task \<Rightarrow>
          log_event now ''WARNING'' (''Task '' @ selected_task_id @ '' cancelled'')
            (s\<lparr>task_queue := remove1 selected_task (task_queue s)\<rparr>))"

section \<open>Example sessions\<close>

text \<open>
  A registry with the single cell \<open>A\<close>, and queues built from it by running the handlers:
  three tasks of priorities Low, Critical, Medium created in that order; one task that
  was started and then paused. The registry of three cells comes with a queue holding one
  task marked \<open>Completed\<close>, which no handler of the control panel reads.
\<close>

definition cell_A :: cell where
  "cell_A = \<lparr>voltage = Some 3.2, current = Some 0, temp = Some 28, capacity = Some 10,
             min_voltage = Some 2.8, max_voltage = Some 3.6, soc = Some 85,
             cycle_count = Some 0, cell_type = Some ''lfp''\<rparr>"

definition session_A :: session_state where
  "session_A = \<lparr>cells_data = [(''A'', cell_A)], task_queue = [], system_logs = []\<rparr>"

definition idle_form :: "string \<Rightarrow> task_form" where
  "idle_form p = \<lparr>form_task_type = ''IDLE'', form_target_cells = [''A''], form_priority = p,
     form_description = [], form_target_voltage = 3.6, form_target_current = 1.0,
     form_max_capacity = 10.0, form_max_temp = 45, form_duration = 30,
     form_cutoff_voltage = 2.8, form_balance_threshold = 10, form_max_balance_current = 0.5\<rparr>"

definition three_tasks :: session_state where
  "three_tasks =
     fst (create_task ''t3'' (idle_form ''Medium'')
       (fst (create_task ''t2'' (idle_form ''Critical'')
         (fst (create_task ''t1'' (idle_form ''Low'') session_A)))))"

definition one_paused :: session_state where
  "one_paused =
     fst (pause_all_tasks ''t3''
       (fst (start_next_task ''t2''
         (fst (create_task ''t1'' (idle_form ''Low'') session_A)))))"

definition completed_task :: task where
  "completed_task = \<lparr>task_id = ''task_1'', task_type = ''IDLE'', cells = [''A''],
     priority = ''Low'', status = ''Completed'', created = ''t1'', description = [],
     params = [(''duration'', 30)]\<rparr>"

definition three_cells :: session_state where
  "three_cells = \<lparr>cells_data = [(''cell_1_lfp'', cell_A\<lparr>current := Some 2.5\<rparr>),
                                 (''cell_2_nmc'', cell_A\<lparr>current := Some 1.8, cell_type := Some ''nmc''\<rparr>),
                                 (''cell_3_lfp'', cell_A\<lparr>current := Some (-1)\<rparr>)],
                   task_queue = [completed_task], system_logs = []\<rparr>"

definition empty_session :: session_state where
  "empty_session = \<lparr>cells_data = [], task_queue = [], system_logs = []\<rparr>"

text \<open>The Add Cell form filled in for an LFP cell \<open>A\<close> with a given voltage and capacity.\<close>

definition add_A :: "real \<Rightarrow> real \<Rightarrow> cell_form" where
  "add_A v cap = \<lparr>form_cell_type = ''lfp'', form_cell_id = ''A'', form_voltage = v,
     form_current = 0, form_temp = 25, form_capacity = cap, form_soc = 50,
     form_cycle_count = 0\<rparr>"



section \<open>Sessions the program can reach\<close>


section \<open>Frame of a cell update\<close>

text \<open>
  \<open>keeps_other_fields v i t c c'\<close>: cell \<open>c'\<close> agrees with cell \<open>c\<close> on every field, except
  possibly on the voltage when \<open>v\<close> holds, on the current when \<open>i\<close> holds and on the
  temperature when \<open>t\<close> holds.
\<close>

definition keeps_other_fields :: "bool \<Rightarrow> bool \<Rightarrow> bool \<Rightarrow> cell \<Rightarrow> cell \<Rightarrow> bool" where
  "keeps_other_fields v i t c c' =
     ((v \<or> voltage c' = voltage c) \<and> (i \<or> current c' = current c) \<and> (t \<or> temp c' = temp c)
      \<and> capacity c' = capacity c \<and> min_voltage c' = min_voltage c
      \<and> max_voltage c' = max_voltage c \<and> soc c' = soc c
      \<and> cycle_count c' = cycle_count c \<and> cell_type c' = cell_type c)"

section \<open>Classification and scoring: results\<close>



text \<open>
  C6. For a cell whose cycle count is not negative, each of the four sub-scores follows
  its formula and lies between 0 and 100, the overall score is their arithmetic mean and
  lies between 0 and 100 as well; a cell with voltage 3.5, temperature 25, cycle count 0
  and state of charge 50 scores exactly 100 overall.
\<close>

theorem health_score_bounds:
  fixes c c' :: cell
  defines "h \<equiv> health_score c"
  assumes "0 \<le> get_or_0 (cycle_count c)"
  shows "voltage_score h =
           (if 3 \<le> get_or_0 (voltage c) \<and> get_or_0 (voltage c) \<le> 4 then 100
            else max 0 (100 - \<bar>get_or_0 (voltage c) - 3.5\<bar> * 50))
       \<and> temp_score h =
           (if get_or_0 (temp c) \<le> 35 then 100 else max 0 (100 - (get_or_0 (temp c) - 35) * 5))
       \<and> cycle_score h = max 0 (100 - get_or_0 (cycle_count c) / 1000 * 100)
       \<and> soc_score h =
           (if 20 \<le> get_or_0 (soc c) \<and> get_or_0 (soc c) \<le> 80 then 100
            else max 0 (100 - \<bar>get_or_0 (soc c) - 50\<bar> * 2))
       \<and> 0 \<le> voltage_score h \<and> voltage_score h \<le> 100
       \<and> 0 \<le> temp_score h \<and> temp_score h \<le> 100
       \<and> 0 \<le> cycle_score h \<and> cycle_score h \<le> 100
       \<and> 0 \<le> soc_score h \<and> soc_score h \<le> 100
       \<and> overall h = (voltage_score h + temp_score h + cycle_score h + soc_score h) / 4
       \<and> 0 \<le> overall h \<and> overall h \<le> 100
       \<and> (voltage c' = Some 3.5 \<and> temp c' = Some 25 \<and> cycle_count c' = Some 0
            \<and> soc c' = Some 50 \<longrightarrow> overall (health_score c') = 100)"
  using assms unfolding health_score_def Let_def get_or_0_def by (auto simp: max_def)

theorem health_score_bounds_witness:
  "0 \<le> get_or_0 (cycle_count cell_A)
   \<and> overall (health_score cell_A) = 165 / 2
   \<and> overall (health_score (cell_A\<lparr>voltage := Some 3.5, temp := Some 25, soc := Some 50\<rparr>)) = 100"
  using health_score_bounds [of cell_A "cell_A\<lparr>voltage := Some 3.5, temp := Some 25, soc := Some 50\<rparr>"]
  by (simp add: cell_A_def get_or_0_def health_score_def)

section \<open>Task manager: results\<close>

lemma str_nat_small: "n < 10 \<Longrightarrow> str_nat n = [digit_char n]"
  by (simp add: str_nat.simps)


text \<open>
  C1, as stated, fails. With three queued tasks of priorities Low, Critical, Medium,
  Start Next Task sets the Low task (the head of the queue) to Running and leaves the
  Critical one queued. With a queue whose only task is Paused, so that no task is
  Queued, it reports success and sets that task to Running.
\<close>

theorem start_next_task_counterexample:
  "map (\<lambda>t. (priority t, status t)) (task_queue (fst (start_next_task ''t4'' three_tasks))) =
     [(''Low'', ''Running''), (''Critical'', ''Queued''), (''Medium'', ''Queued'')]
   \<and> map status (task_queue one_paused) = [''Paused'']
   \<and> map status (task_queue (fst (start_next_task ''t4'' one_paused))) = [''Running'']
   \<and> snd (start_next_task ''t4'' one_paused) = Success ''Started task: task_1''"
  by (simp add: three_tasks_def one_paused_def create_task_def session_A_def idle_form_def
      log_event_def Let_def digit_char_def str_nat_small task_parameters_def
      start_next_task_def pause_all_tasks_def)

text \<open>
  C1, amended. Start Next Task sets the task at the head of the queue (the earliest
  created task still in the queue) to Running, whatever its priority and status; the
  tasks behind it and the registry are unchanged, one INFO entry is logged and success
  is reported. On an empty queue it changes nothing and reports nothing.
\<close>

theorem start_next_task_head:
  "(task_queue s = [] \<longrightarrow> start_next_task now s = (s, Silent))
   \<and> (task_queue s \<noteq> [] \<longrightarrow>
        task_queue (fst (start_next_task now s)) =
          (hd (task_queue s))\<lparr>status := ''Running''\<rparr> # tl (task_queue s)
        \<and> cells_data (fst (start_next_task now s)) = cells_data s
        \<and> system_logs (fst (start_next_task now s)) =
            system_logs s @ [\<lparr>timestamp = now, event_type = ''INFO'',
              message = ''Task '' @ task_id (hd (task_queue s)) @ '' started''\<rparr>]
        \<and> snd (start_next_task now s) = Success (''Started task: '' @ task_id (hd (task_queue s))))"
  by (cases "task_queue s") (simp_all add: start_next_task_def log_event_def)

theorem start_next_task_head_witness:
  "task_queue three_tasks \<noteq> []
   \<and> map (\<lambda>t. (task_id t, status t)) (task_queue (fst (start_next_task ''t4'' three_tasks))) =
       [(''task_1'', ''Running''), (''task_2'', ''Queued''), (''task_3'', ''Queued'')]
   \<and> task_queue session_A = []
   \<and> start_next_task ''t4'' session_A = (session_A, Silent)"
  using start_next_task_head [of three_tasks "''t4''"] start_next_task_head [of session_A "''t4''"]
  by (simp add: three_tasks_def create_task_def session_A_def idle_form_def log_event_def
      Let_def digit_char_def str_nat_small task_parameters_def)






text \<open>
  C4. Create Task names a task after the present length of the queue. After two tasks
  are created and the first is cancelled, the next task created is \<open>task_2\<close> again,
  alongside the \<open>task_2\<close> that is still queued: the ids are neither distinct nor
  increasing.
\<close>

theorem create_task_id_reused:
  "(let s2 = fst (create_task ''t2'' (idle_form ''High'')
               (fst (create_task ''t1'' (idle_form ''Low'') session_A)));
        s3 = fst (create_task ''t4'' (idle_form ''Medium'') (cancel_task ''t3'' ''task_1'' s2))
    in map task_id (task_queue s2) = [''task_1'', ''task_2'']
     \<and> map task_id (task_queue s3) = [''task_2'', ''task_2'']
     \<and> map priority (task_queue s3) = [''High'', ''Medium''])"
  by (simp add: create_task_def session_A_def idle_form_def log_event_def Let_def
      digit_char_def str_nat_small task_parameters_def cancel_task_def)

text \<open>
  C8. Pause All Tasks is idempotent on the queue: pausing twice leaves the same queue
  as pausing once. One call turns every Running status into Paused and keeps every
  other status and every other field of every task; when no task is Running the queue
  is unchanged.
\<close>

theorem pause_all_tasks_idempotent:
  "task_queue (fst (pause_all_tasks now' (fst (pause_all_tasks now s)))) =
     task_queue (fst (pause_all_tasks now s))
   \<and> map status (task_queue (fst (pause_all_tasks now s))) =
       map (\<lambda>t. if status t = ''Running'' then ''Paused'' else status t) (task_queue s)
   \<and> map (\<lambda>t. t\<lparr>status := []\<rparr>) (task_queue (fst (pause_all_tasks now s))) =
       map (\<lambda>t. t\<lparr>status := []\<rparr>) (task_queue s)
   \<and> ((\<forall>t \<in> set (task_queue s). status t \<noteq> ''Running'') \<longrightarrow>
        task_queue (fst (pause_all_tasks now s)) = task_queue s)"
  by (auto simp: pause_all_tasks_def log_event_def map_idI)

theorem pause_all_tasks_idempotent_witness:
  "map status (task_queue three_tasks) = [''Queued'', ''Queued'', ''Queued'']
   \<and> task_queue (fst (pause_all_tasks ''t5'' three_tasks)) = task_queue three_tasks
   \<and> map status (task_queue (fst (pause_all_tasks ''t5'' (fst (start_next_task ''t4'' three_tasks))))) =
       [''Paused'', ''Queued'', ''Queued'']"
  using pause_all_tasks_idempotent [of "''t5''" "''t5''" three_tasks]
    pause_all_tasks_idempotent [of "''t5''" "''t5''" "fst (start_next_task ''t4'' three_tasks)"]
  by (simp add: three_tasks_def create_task_def session_A_def idle_form_def log_event_def
      Let_def digit_char_def str_nat_small task_parameters_def start_next_task_def)

section \<open>Setup page: results\<close>

text \<open>
  C2, as stated, fails. Adding cell \<open>A\<close> a second time, now with a negative capacity,
  reports success, replaces the stored cell and logs a second entry: there is neither
  a duplicate check nor a check of the attributes.
\<close>

theorem add_cell_counterexample:
  "(let r1 = add_cell ''t1'' (add_A 3.2 10) empty_session;
        r2 = add_cell ''t2'' (add_A 3.3 (-1)) (fst r1)
    in map fst (cells_data (fst r1)) = [''A'']
     \<and> snd r2 = Success ''Cell A added successfully!''
     \<and> map (\<lambda>(k, c). (k, voltage c, capacity c)) (cells_data (fst r1)) = [(''A'', Some 3.2, Some 10)]
     \<and> map (\<lambda>(k, c). (k, voltage c, capacity c)) (cells_data (fst r2)) = [(''A'', Some 3.3, Some (-1))]
     \<and> length (system_logs (fst r2)) = 2)"
  by (simp add: add_cell_def add_A_def empty_session_def log_event_def Let_def)

text \<open>
  C2, amended. Add Cell fails only on an empty id, and then registry, queue and log are
  exactly as before. On any other id it succeeds: the cell is stored under the id
  (replacing a cell already there) with the entered readings and with voltage bounds
  that follow from the cell type, the minimum below the maximum; every other cell and
  the task queue are unchanged, and exactly one INFO entry is logged.
\<close>

theorem add_cell_effect:
  fixes f :: cell_form and now :: string and s :: session_state
  defines "r \<equiv> add_cell now f s"
  shows "(form_cell_id f = [] \<longrightarrow> r = (s, Error ''Please enter a valid Cell ID''))
       \<and> (form_cell_id f \<noteq> [] \<longrightarrow>
            (\<exists>c. map_of (cells_data (fst r)) (form_cell_id f) = Some c
                \<and> voltage c = Some (form_voltage f) \<and> current c = Some (form_current f)
                \<and> temp c = Some (form_temp f) \<and> capacity c = Some (form_capacity f)
                \<and> soc c = Some (form_soc f) \<and> cycle_count c = Some (form_cycle_count f)
                \<and> cell_type c = Some (form_cell_type f)
                \<and> get_or_0 (min_voltage c) < get_or_0 (max_voltage c))
          \<and> (\<forall>k. k \<noteq> form_cell_id f \<longrightarrow> map_of (cells_data (fst r)) k = map_of (cells_data s) k)
          \<and> task_queue (fst r) = task_queue s
          \<and> system_logs (fst r) =
              system_logs s @ [\<lparr>timestamp = now, event_type = ''INFO'',
                message = ''Cell '' @ form_cell_id f @ '' added successfully''\<rparr>]
          \<and> snd r = Success (''Cell '' @ form_cell_id f @ '' added successfully!''))"
  unfolding r_def
  by (simp add: add_cell_def log_event_def Let_def update_conv' get_or_0_def)

theorem add_cell_effect_witness:
  "form_cell_id (add_A 3.2 10) \<noteq> []
   \<and> map fst (cells_data (fst (add_cell ''t1'' (add_A 3.2 10) empty_session))) = [''A'']
   \<and> form_cell_id ((add_A 3.2 10)\<lparr>form_cell_id := []\<rparr>) = []
   \<and> add_cell ''t1'' ((add_A 3.2 10)\<lparr>form_cell_id := []\<rparr>) empty_session =
       (empty_session, Error ''Please enter a valid Cell ID'')"
  using add_cell_effect [of "add_A 3.2 10" "''t1''" empty_session]
    add_cell_effect [of "(add_A 3.2 10)\<lparr>form_cell_id := []\<rparr>" "''t1''" empty_session]
  by (simp add: add_cell_def add_A_def empty_session_def log_event_def Let_def)

section \<open>Control panel: results\<close>

lemma ids_for_all_cells: "map fst (cells_data (for_all_cells body s)) = map fst (cells_data s)"
  by (simp add: for_all_cells_def case_prod_beta comp_def)

lemma queue_for_all_cells: "task_queue (for_all_cells body s) = task_queue s"
  by (simp add: for_all_cells_def)

lemma logs_for_all_cells: "system_logs (for_all_cells body s) = system_logs s"
  by (simp add: for_all_cells_def)

lemma cells_for_all_cells:
  "map snd (cells_data (for_all_cells body s)) = map (\<lambda>(k, c). body k c) (cells_data s)"
  by (simp add: for_all_cells_def case_prod_beta comp_def)

text \<open>
  C7, as stated, fails in one point: the handler reports no count. What it reports is a
  fixed message, the same for a registry of three cells and for a registry of one.
\<close>

theorem emergency_stop_counterexample:
  "length (cells_data three_cells) = 3 \<and> length (cells_data session_A) = 1
   \<and> snd (execute_batch_operation ''t1'' ''Emergency Stop All'' three_cells) =
       Success ''Emergency stop executed!''
   \<and> snd (execute_batch_operation ''t1'' ''Emergency Stop All'' session_A) =
       Success ''Emergency stop executed!''"
  by (simp add: execute_batch_operation_def three_cells_def session_A_def)

text \<open>
  C7, amended. Emergency Stop All keeps the registry's ids and so its number of cells,
  leaves every cell with current 0, appends exactly one log entry, of severity WARNING,
  and reports a fixed success message without a count. Each of the three other
  operations appends exactly one entry of severity INFO.
\<close>

theorem emergency_stop_effect:
  fixes now :: string and s :: session_state
  defines "r \<equiv> execute_batch_operation now ''Emergency Stop All'' s"
  shows "map fst (cells_data (fst r)) = map fst (cells_data s)
       \<and> length (cells_data (fst r)) = length (cells_data s)
       \<and> (\<forall>c \<in> set (map snd (cells_data (fst r))). current c = Some 0)
       \<and> system_logs (fst r) =
           system_logs s @ [\<lparr>timestamp = now, event_type = ''WARNING'',
             message = ''Emergency stop - all cells stopped''\<rparr>]
       \<and> snd r = Success ''Emergency stop executed!''
       \<and> (\<forall>operation \<in> {''Balance All Cells'', ''Reset All Temperatures'', ''Set All Currents to Zero''}.
            \<exists>msg. system_logs (fst (execute_batch_operation now operation s)) =
              system_logs s @ [\<lparr>timestamp = now, event_type = ''INFO'', message = msg\<rparr>])"
proof -
  have "length (map fst (cells_data (fst r))) = length (map fst (cells_data s))"
    unfolding r_def by (simp add: execute_batch_operation_def log_event_def ids_for_all_cells)
  then have len: "length (cells_data (fst r)) = length (cells_data s)"
    by simp
  have cur: "\<forall>c \<in> set (map snd (cells_data (fst r))). current c = Some 0"
    unfolding r_def
    by (auto simp: execute_batch_operation_def log_event_def cells_for_all_cells)
  show ?thesis
    using len cur unfolding r_def
    by (simp add: execute_batch_operation_def log_event_def ids_for_all_cells
        logs_for_all_cells del: set_map)
qed

theorem emergency_stop_effect_witness:
  "map (\<lambda>(k, c). (k, current c))
      (cells_data (fst (execute_batch_operation ''t1'' ''Emergency Stop All'' three_cells))) =
     [(''cell_1_lfp'', Some 0), (''cell_2_nmc'', Some 0), (''cell_3_lfp'', Some 0)]
   \<and> map event_type (system_logs (fst (execute_batch_operation ''t1'' ''Emergency Stop All'' three_cells))) =
       [''WARNING'']
   \<and> map event_type (system_logs (fst (execute_batch_operation ''t1'' ''Balance All Cells'' three_cells))) =
       [''INFO'']"
  using emergency_stop_effect [of "''t1''" three_cells]
  by (simp add: execute_batch_operation_def three_cells_def log_event_def for_all_cells_def)

lemma frame_refl: "list_all2 (keeps_other_fields v i t) xs xs"
  by (simp add: list_all2_same keeps_other_fields_def)

lemma frame_for_all_cells:
  assumes "\<And>k c. keeps_other_fields v i t c (body k c)"
  shows "list_all2 (keeps_other_fields v i t) (map snd (cells_data s))
           (map snd (cells_data (log_event now ty msg (for_all_cells body s))))"
proof -
  have "map snd (cells_data (log_event now ty msg (for_all_cells body s))) =
          map (\<lambda>(k, c). body k c) (cells_data s)"
    by (simp add: log_event_def cells_for_all_cells)
  then show ?thesis
    using assms by (simp add: list_all2_map1 list_all2_map2 list_all2_same case_prod_beta)
qed

lemma ids_logged: "map fst (cells_data (log_event now ty msg (for_all_cells body s))) = map fst (cells_data s)"
  by (simp add: log_event_def ids_for_all_cells)

lemma queue_logged: "task_queue (log_event now ty msg (for_all_cells body s)) = task_queue s"
  by (simp add: log_event_def queue_for_all_cells)

lemma batch_frame:
  "list_all2 (keeps_other_fields False (operation \<noteq> ''Reset All Temperatures'')
      (operation = ''Reset All Temperatures''))
      (map snd (cells_data s)) (map snd (cells_data (fst (execute_batch_operation now operation s))))"
proof -
  have cur: "list_all2 (keeps_other_fields False True False) (map snd (cells_data s))
      (map snd (cells_data (log_event now ty msg
         (for_all_cells (\<lambda>cell_id cell_data. cell_data\<lparr>current := Some x\<rparr>) s))))" for ty msg x
    by (rule frame_for_all_cells) (simp add: keeps_other_fields_def)
  have tmp: "list_all2 (keeps_other_fields False False True) (map snd (cells_data s))
      (map snd (cells_data (log_event now ty msg
         (for_all_cells (\<lambda>cell_id cell_data. cell_data\<lparr>temp := Some x\<rparr>) s))))" for ty msg x
    by (rule frame_for_all_cells) (simp add: keeps_other_fields_def)
  show ?thesis
    unfolding execute_batch_operation_def
    by (simp add: cur tmp frame_refl)
qed

lemma batch_ids:
  "map fst (cells_data (fst (execute_batch_operation now operation s))) = map fst (cells_data s)
   \<and> task_queue (fst (execute_batch_operation now operation s)) = task_queue s"
  unfolding execute_batch_operation_def by (simp add: ids_logged queue_logged)

lemma shutdown_frame:
  "list_all2 (keeps_other_fields True True False)
      (map snd (cells_data s)) (map snd (cells_data (fst (emergency_shutdown now s))))"
  unfolding emergency_shutdown_def fst_conv
  by (rule frame_for_all_cells) (simp add: keeps_other_fields_def)

lemma restart_frame:
  "list_all2 (keeps_other_fields True True True)
      (map snd (cells_data s)) (map snd (cells_data (fst (system_restart now s))))"
  unfolding system_restart_def fst_conv
  by (rule frame_for_all_cells) (simp add: keeps_other_fields_def)

text \<open>
  C10. Every batch operation, the emergency shutdown and the system restart keep the
  ids of the registry, in order, and the whole task queue. Of each cell the balance,
  emergency-stop and zero-current operations change at most the current, the
  temperature reset at most the temperature, the shutdown at most current and voltage,
  and the restart at most voltage, current and temperature; capacity, state of charge,
  cycle count, the voltage bounds and the type are never changed.
\<close>

theorem control_panel_frame:
  fixes now :: string and operation :: string and s :: session_state
  defines "b \<equiv> fst (execute_batch_operation now operation s)"
    and "d \<equiv> fst (emergency_shutdown now s)"
    and "u \<equiv> fst (system_restart now s)"
  shows "map fst (cells_data b) = map fst (cells_data s) \<and> task_queue b = task_queue s
       \<and> list_all2 (keeps_other_fields False (operation \<noteq> ''Reset All Temperatures'')
            (operation = ''Reset All Temperatures''))
            (map snd (cells_data s)) (map snd (cells_data b))
       \<and> map fst (cells_data d) = map fst (cells_data s) \<and> task_queue d = task_queue s
       \<and> list_all2 (keeps_other_fields True True False)
            (map snd (cells_data s)) (map snd (cells_data d))
       \<and> map fst (cells_data u) = map fst (cells_data s) \<and> task_queue u = task_queue s
       \<and> list_all2 (keeps_other_fields True True True)
            (map snd (cells_data s)) (map snd (cells_data u))"
proof -
  have "map fst (cells_data d) = map fst (cells_data s) \<and> task_queue d = task_queue s"
    unfolding d_def emergency_shutdown_def by (simp add: ids_logged queue_logged)
  moreover have "map fst (cells_data u) = map fst (cells_data s) \<and> task_queue u = task_queue s"
    unfolding u_def system_restart_def by (simp add: ids_logged queue_logged)
  ultimately show ?thesis
    using batch_ids [of now operation s] batch_frame [of operation s now]
      shutdown_frame [of s now] restart_frame [of s now]
    unfolding b_def d_def u_def by blast
qed

theorem control_panel_frame_witness:
  "map (\<lambda>(k, c). (k, voltage c, current c, temp c, soc c))
      (cells_data (fst (system_restart ''t1'' three_cells))) =
     [(''cell_1_lfp'', Some 3.2, Some 0, Some 25, Some 85),
      (''cell_2_nmc'', Some 3.6, Some 0, Some 25, Some 85),
      (''cell_3_lfp'', Some 3.2, Some 0, Some 25, Some 85)]
   \<and> map (\<lambda>(k, c). (k, voltage c, current c, temp c, soc c))
      (cells_data (fst (emergency_shutdown ''t1'' three_cells))) =
     [(''cell_1_lfp'', Some 0, Some 0, Some 28, Some 85),
      (''cell_2_nmc'', Some 0, Some 0, Some 28, Some 85),
      (''cell_3_lfp'', Some 0, Some 0, Some 28, Some 85)]
   \<and> map (\<lambda>(k, c). (k, voltage c, current c, temp c, soc c))
      (cells_data (fst (execute_batch_operation ''t1'' ''Reset All Temperatures'' three_cells))) =
     [(''cell_1_lfp'', Some 3.2, Some 2.5, Some 25, Some 85),
      (''cell_2_nmc'', Some 3.2, Some 1.8, Some 25, Some 85),
      (''cell_3_lfp'', Some 3.2, Some (-1), Some 25, Some 85)]
   \<and> task_queue (fst (system_restart ''t1'' three_cells)) = [completed_task]"
  using control_panel_frame [of "''t1''" "''Reset All Temperatures''" three_cells]
  by (simp add: three_cells_def cell_A_def system_restart_def emergency_shutdown_def
      execute_batch_operation_def for_all_cells_def log_event_def)

end
